theory Spec2Isabelle
  imports Main "HOL-Library.Sublist"
begin

section \<open>Strings and exceptions\<close>

text \<open>
  A Python \<open>str\<close> is a sequence of Unicode code points, so a string is a list of code
  points (natural numbers); its length counts code points, as \<open>len\<close> does. The only
  exception the module raises is \<open>ValueError\<close>, with its message.
\<close>

type_synonym pystr = "nat list"

definition str :: "string \<Rightarrow> pystr" where
  \<comment> \<open>the Python literal with the given ASCII text\<close>
  "str s = map of_char s"

datatype error = ValueError string

section \<open>The regular expression of \<open>Phone\<close>\<close>

text \<open>
  \<open>re.fullmatch(r'\d{10}', value)\<close> is called with a \<open>str\<close> pattern and no flag, so
  \<open>\d\<close> is Python's Unicode digit class: every code point of general category Nd
  (decimal digit). The digits of one script are ten consecutive code points; the list
  holds the code point of each script's zero (Unicode 14.0, the table of CPython 3.11;
  the five runs from 120782 are the mathematical digits).
\<close>

definition decimal_zeros :: "nat list" where
  "decimal_zeros =
    [48, 1632, 1776, 1984, 2406, 2534, 2662, 2790, 2918, 3046, 3174, 3302, 3430, 3558,
     3664, 3792, 3872, 4160, 4240, 6112, 6160, 6470, 6608, 6784, 6800, 6992, 7088, 7232,
     7248, 42528, 43216, 43264, 43472, 43504, 43600, 44016, 65296, 66720, 68912, 69734,
     69872, 69942, 70096, 70384, 70736, 70864, 71248, 71360, 71472, 71904, 72016, 72784,
     73040, 73120, 92768, 92864, 93008, 120782, 120792, 120802, 120812, 120822, 123200,
     123632, 125264, 130032]"

definition uni_decimal :: "nat \<Rightarrow> bool" where
  \<comment> \<open>the class \<open>\d\<close> of a \<open>str\<close> pattern\<close>
  "uni_decimal c = list_ex (\<lambda>z. z \<le> c \<and> c \<le> z + 9) decimal_zeros"

definition ascii_digit :: "nat \<Rightarrow> bool" where
  \<comment> \<open>the characters \<open>'0'\<close> to \<open>'9'\<close>\<close>
  "ascii_digit c = (48 \<le> c \<and> c \<le> 57)"

datatype pattern = Digit | Repeat pattern nat

text \<open>
  \<open>Digit\<close> is \<open>\d\<close> and \<open>Repeat p n\<close> is \<open>p{n}\<close>. \<open>match_at p s\<close> matches \<open>p\<close> at
  the start of \<open>s\<close> and returns what is left of \<open>s\<close> after the match; these patterns
  have no alternative, so there is at most one match. \<open>match_n m n\<close> runs the matcher
  \<open>m\<close> \<open>n\<close> times in a row. \<open>fullmatch\<close> asks for a match that ends at the end of
  the string.
\<close>

primrec match_n :: "(pystr \<Rightarrow> pystr option) \<Rightarrow> nat \<Rightarrow> pystr \<Rightarrow> pystr option" where
  "match_n m 0 s = Some s"
| "match_n m (Suc n) s =
     (case m s of None \<Rightarrow> None | Some rest \<Rightarrow> match_n m n rest)"

primrec match_at :: "pattern \<Rightarrow> pystr \<Rightarrow> pystr option" where
  "match_at Digit s =
     (case s of [] \<Rightarrow> None | c # cs \<Rightarrow> if uni_decimal c then Some cs else None)"
| "match_at (Repeat p n) s = match_n (match_at p) n s"

definition fullmatch :: "pattern \<Rightarrow> pystr \<Rightarrow> bool" where
  "fullmatch p s = (match_at p s = Some [])"

section \<open>Fields\<close>

text \<open>
  \<open>Field\<close> stores its value; \<open>Name\<close> and \<open>Phone\<close> check the value first and raise
  \<open>ValueError\<close>. A string is false in a condition exactly when its length is zero.
\<close>

datatype Name = Name (name_value: pystr)

datatype Phone = Phone (phone_value: pystr)

definition truthy :: "pystr \<Rightarrow> bool" where
  "truthy s = (length s \<noteq> 0)"

definition Name_init :: "pystr \<Rightarrow> error + Name" where
  "Name_init v =
     (if \<not> truthy v then Inl (ValueError ''Name cannot be empty'')
      else Inr (Name v))"

definition Phone_init :: "pystr \<Rightarrow> error + Phone" where
  "Phone_init v =
     (if \<not> fullmatch (Repeat Digit 10) v then Inl (ValueError ''Phone number must be 10 digits'')
      else Inr (Phone v))"

section \<open>Records\<close>

text \<open>
  A method of a mutable object takes the object and returns its outcome (the exception
  raised, or the value returned) together with the object as the call leaves it, so that
  what an exception leaves behind is part of the result.
\<close>

record Record =
  name :: Name
  phones :: "Phone list"

definition Record_init :: "pystr \<Rightarrow> error + Record" where
  "Record_init n =
     (case Name_init n of
        Inl e \<Rightarrow> Inl e
      | Inr nm \<Rightarrow> Inr \<lparr>name = nm, phones = []\<rparr>)"

definition add_phone :: "pystr \<Rightarrow> Record \<Rightarrow> (error + unit) \<times> Record" where
  "add_phone phone_number r =
     (case Phone_init phone_number of
        Inl e \<Rightarrow> (Inl e, r)
      | Inr phone \<Rightarrow> (Inr (), r\<lparr>phones := phones r @ [phone]\<rparr>))"

definition remove_phone :: "pystr \<Rightarrow> Record \<Rightarrow> (error + unit) \<times> Record" where
  "remove_phone phone_number r =
     (Inr (), r\<lparr>phones := [p \<leftarrow> phones r. phone_value p \<noteq> phone_number]\<rparr>)"

definition edit_phone :: "pystr \<Rightarrow> pystr \<Rightarrow> Record \<Rightarrow> (error + unit) \<times> Record" where
  "edit_phone old_phone_number new_phone_number r =
     (case remove_phone old_phone_number r of
        (Inl e, r') \<Rightarrow> (Inl e, r')
      | (Inr u, r') \<Rightarrow> add_phone new_phone_number r')"

fun find_phone_loop :: "pystr \<Rightarrow> Phone list \<Rightarrow> Phone option" where
  "find_phone_loop phone_number [] = None"
| "find_phone_loop phone_number (phone # rest) =
     (if phone_value phone = phone_number then Some phone
      else find_phone_loop phone_number rest)"

definition find_phone :: "pystr \<Rightarrow> Record \<Rightarrow> (error + Phone option) \<times> Record" where
  "find_phone phone_number r = (Inr (find_phone_loop phone_number (phones r)), r)"

text \<open>
  The records that the public operations can produce: one just constructed, and the one
  any method call leaves behind, whether it returned or raised.
\<close>

inductive reachable :: "Record \<Rightarrow> bool" where
  init: "Record_init n = Inr r \<Longrightarrow> reachable r"
| add: "reachable r \<Longrightarrow> reachable (snd (add_phone x r))"
| remove: "reachable r \<Longrightarrow> reachable (snd (remove_phone x r))"
| edit: "reachable r \<Longrightarrow> reachable (snd (edit_phone x y r))"
| find: "reachable r \<Longrightarrow> reachable (snd (find_phone x r))"

section \<open>The address book\<close>

text \<open>
  \<open>AddressBook\<close> is a \<open>UserDict\<close>: its state is the dictionary \<open>data\<close>, from names to
  records.
\<close>

record AddressBook =
  data :: "pystr \<rightharpoonup> Record"

definition add_record :: "Record \<Rightarrow> AddressBook \<Rightarrow> (error + unit) \<times> AddressBook" where
  "add_record record b =
     (Inr (), b\<lparr>data := (data b)(name_value (name record) \<mapsto> record)\<rparr>)"

definition find :: "pystr \<Rightarrow> AddressBook \<Rightarrow> (error + Record option) \<times> AddressBook" where
  "find n b = (Inr (data b n), b)"

definition delete :: "pystr \<Rightarrow> AddressBook \<Rightarrow> (error + unit) \<times> AddressBook" where
  "delete n b =
     (if n \<in> dom (data b) then (Inr (), b\<lparr>data := (data b)(n := None)\<rparr>)
      else (Inr (), b))"

section \<open>Matching\<close>

lemma match_n_Digit:
  "match_n (match_at Digit) n s =
     (if n \<le> length s \<and> list_all uni_decimal (take n s) then Some (drop n s) else None)"
proof (induction n arbitrary: s)
  case 0
  show ?case by simp
next
  case (Suc n)
  show ?case
  proof (cases s)
    case Nil
    then show ?thesis by simp
  next
    case (Cons c cs)
    then show ?thesis using Suc.IH [of cs] by simp
  qed
qed

lemma fullmatch_digits:
  "fullmatch (Repeat Digit n) s \<longleftrightarrow> length s = n \<and> list_all uni_decimal s"
  by (auto simp: fullmatch_def match_n_Digit)

lemma Phone_init_valid:
  "length s = 10 \<Longrightarrow> list_all uni_decimal s \<Longrightarrow> Phone_init s = Inr (Phone s)"
  by (simp add: Phone_init_def fullmatch_digits)

lemma Phone_init_invalid:
  "\<not> (length s = 10 \<and> list_all uni_decimal s) \<Longrightarrow>
     Phone_init s = Inl (ValueError ''Phone number must be 10 digits'')"
  by (simp add: Phone_init_def fullmatch_digits)

lemma ascii_digit_decimal: "ascii_digit c \<Longrightarrow> uni_decimal c"
  by (simp add: ascii_digit_def uni_decimal_def decimal_zeros_def)

section \<open>Literals and helper lemmas\<close>

lemma str_bad: "str ''bad'' = [98, 97, 100]"
  by (simp add: str_def)

lemma str_1234567890: "str ''1234567890'' = [49, 50, 51, 52, 53, 54, 55, 56, 57, 48]"
  by (simp add: str_def)

lemma Phone_init_bad:
  "Phone_init (str ''bad'') = Inl (ValueError ''Phone number must be 10 digits'')"
  by (rule Phone_init_invalid) (simp add: str_bad)

lemma Phone_init_1234567890:
  "Phone_init (str ''1234567890'') = Inr (Phone (str ''1234567890''))"
  by (rule Phone_init_valid) (simp_all add: str_1234567890 uni_decimal_def decimal_zeros_def)

lemma Phone_init_value: "Phone_init v = Inr p \<Longrightarrow> Phone_init (phone_value p) = Inr p"
  by (auto simp: Phone_init_def split: if_splits)

lemma count_list_filter_if:
  "count_list (filter P xs) x = (if P x then count_list xs x else 0)"
  by (induction xs) auto

lemma find_phone_loop_find:
  "find_phone_loop n ps = List.find (\<lambda>p. phone_value p = n) ps"
  by (induction ps) auto

lemma find_phone_loop_appended:
  "\<exists>p. find_phone_loop x (ps @ [Phone x]) = Some p \<and> phone_value p = x"
  by (induction ps) auto

lemma add_phone_valid:
  "list_all (\<lambda>p. Phone_init (phone_value p) = Inr p) (phones r) \<Longrightarrow>
     list_all (\<lambda>p. Phone_init (phone_value p) = Inr p) (phones (snd (add_phone x r)))"
  by (auto simp: add_phone_def Phone_init_value split: sum.splits)

lemma remove_phone_valid:
  "list_all (\<lambda>p. Phone_init (phone_value p) = Inr p) (phones r) \<Longrightarrow>
     list_all (\<lambda>p. Phone_init (phone_value p) = Inr p) (phones (snd (remove_phone x r)))"
  by (simp add: remove_phone_def list_all_iff)

lemma edit_phone_snd:
  "snd (edit_phone x y r) = snd (add_phone y (snd (remove_phone x r)))"
  by (simp add: edit_phone_def remove_phone_def)

lemma reachable_valid:
  "reachable r \<Longrightarrow> list_all (\<lambda>p. Phone_init (phone_value p) = Inr p) (phones r)"
proof (induction rule: reachable.induct)
  case (init n r)
  then show ?case
    by (auto simp: Record_init_def split: sum.splits)
next
  case (add r x)
  then show ?case by (simp add: add_phone_valid)
next
  case (remove r x)
  then show ?case by (simp add: remove_phone_valid)
next
  case (edit r x y)
  then show ?case
    by (simp add: edit_phone_snd add_phone_valid remove_phone_valid)
next
  case (find r x)
  then show ?case by (simp add: find_phone_def)
qed

section \<open>Phone validation\<close>

text \<open>
  C1 (amended). For every string \<open>s\<close>, constructing a Phone with \<open>s\<close> succeeds and
  stores \<open>s\<close> if and only if \<open>s\<close> is exactly 10 characters long and each of them is a
  decimal digit in the sense of \<open>\d\<close>, that is a Unicode decimal digit: the ASCII
  digits and the decimal digits of the other scripts. The match is anchored at both
  ends. Every other input raises \<open>ValueError\<close>. In particular every string of exactly
  10 ASCII digits is accepted.
\<close>

theorem Phone_init_succeeds_iff:
  "(Phone_init s = Inr (Phone s) \<longleftrightarrow> length s = 10 \<and> list_all uni_decimal s)
   \<and> (Phone_init s = Inl (ValueError ''Phone number must be 10 digits'') \<longleftrightarrow>
        \<not> (length s = 10 \<and> list_all uni_decimal s))
   \<and> (length s = 10 \<and> list_all ascii_digit s \<longrightarrow> Phone_init s = Inr (Phone s))"
  by (auto simp: Phone_init_def fullmatch_digits list_all_iff ascii_digit_decimal)

theorem Phone_init_succeeds_iff_witness:
  "Phone_init (str ''1234567890'') = Inr (Phone (str ''1234567890''))"
  using Phone_init_succeeds_iff [of "str ''1234567890''"]
  by (simp add: str_1234567890 ascii_digit_def)

text \<open>
  With a digit read as one of \<open>'0'\<close> to \<open>'9'\<close> only, the equivalence fails: the
  string of the ten Arabic-Indic digits U+0661 ... U+0669, U+0660 is accepted, and none
  of its characters is an ASCII digit.
\<close>

theorem Phone_init_unicode_digits:
  "Phone_init [1633, 1634, 1635, 1636, 1637, 1638, 1639, 1640, 1641, 1632]
     = Inr (Phone [1633, 1634, 1635, 1636, 1637, 1638, 1639, 1640, 1641, 1632])
   \<and> \<not> list_all ascii_digit [1633, 1634, 1635, 1636, 1637, 1638, 1639, 1640, 1641, 1632]"
  by (simp add: Phone_init_def fullmatch_digits uni_decimal_def decimal_zeros_def ascii_digit_def)

section \<open>Editing a phone\<close>

text \<open>
  C2. \<open>edit_phone\<close> is not atomic when the new number fails validation: for every
  Record, every \<open>old\<close> and every \<open>new\<close> that Phone validation rejects,
  \<open>edit_phone(old, new)\<close> raises that \<open>ValueError\<close> and leaves the Record as
  \<open>remove_phone(old)\<close> leaves it, with every phone equal to \<open>old\<close> removed and
  nothing added. In particular, for a Record whose phones are exactly
  \<open>["1234567890"]\<close>, \<open>edit_phone("1234567890", "bad")\<close> raises \<open>ValueError\<close> and
  leaves the Record with no phone.
\<close>

theorem edit_phone_invalid_new:
  "(Phone_init new = Inl e \<longrightarrow>
      edit_phone old new r = (Inl e, snd (remove_phone old r)))
   \<and> (\<not> (length new = 10 \<and> list_all uni_decimal new) \<longrightarrow>
      edit_phone old new r
        = (Inl (ValueError ''Phone number must be 10 digits''),
           r\<lparr>phones := [p \<leftarrow> phones r. phone_value p \<noteq> old]\<rparr>))
   \<and> (phones r = [Phone (str ''1234567890'')] \<longrightarrow>
      edit_phone (str ''1234567890'') (str ''bad'') r
        = (Inl (ValueError ''Phone number must be 10 digits''), r\<lparr>phones := []\<rparr>))"
proof -
  have "edit_phone old new r = (Inl e, snd (remove_phone old r))"
    if "Phone_init new = Inl e"
    using that by (simp add: edit_phone_def remove_phone_def add_phone_def)
  moreover have "edit_phone old new r
        = (Inl (ValueError ''Phone number must be 10 digits''),
           r\<lparr>phones := [p \<leftarrow> phones r. phone_value p \<noteq> old]\<rparr>)"
    if "\<not> (length new = 10 \<and> list_all uni_decimal new)"
    using Phone_init_invalid [OF that]
    by (simp add: edit_phone_def remove_phone_def add_phone_def)
  moreover have "edit_phone (str ''1234567890'') (str ''bad'') r
        = (Inl (ValueError ''Phone number must be 10 digits''), r\<lparr>phones := []\<rparr>)"
    if "phones r = [Phone (str ''1234567890'')]"
    using that by (simp add: edit_phone_def remove_phone_def add_phone_def Phone_init_bad)
  ultimately show ?thesis
    by blast
qed

theorem edit_phone_invalid_new_witness:
  "edit_phone (str ''1234567890'') (str ''bad'')
       \<lparr>name = Name (str ''John''), phones = [Phone (str ''1234567890'')]\<rparr>
     = (Inl (ValueError ''Phone number must be 10 digits''),
        \<lparr>name = Name (str ''John''), phones = []\<rparr>)
   \<and> edit_phone (str ''1234567890'') [49, 50, 51]
       \<lparr>name = Name (str ''John''),
        phones = [Phone (str ''1234567890''), Phone [53, 53, 53, 53, 53, 53, 53, 53, 53, 53],
                  Phone (str ''1234567890'')]\<rparr>
     = (Inl (ValueError ''Phone number must be 10 digits''),
        \<lparr>name = Name (str ''John''), phones = [Phone [53, 53, 53, 53, 53, 53, 53, 53, 53, 53]]\<rparr>)"
proof -
  have bad: "Phone_init [49, 50, 51] = Inl (ValueError ''Phone number must be 10 digits'')"
    by (rule Phone_init_invalid) simp
  show ?thesis
    using edit_phone_invalid_new
        [where r = "\<lparr>name = Name (str ''John''), phones = [Phone (str ''1234567890'')]\<rparr>"]
      edit_phone_invalid_new
        [where new = "[49, 50, 51]" and e = "ValueError ''Phone number must be 10 digits''"
           and old = "str ''1234567890''"
           and r = "\<lparr>name = Name (str ''John''),
              phones = [Phone (str ''1234567890''), Phone [53, 53, 53, 53, 53, 53, 53, 53, 53, 53],
                        Phone (str ''1234567890'')]\<rparr>"]
      bad
    by (simp add: remove_phone_def str_1234567890)
qed

text \<open>
  C3. When \<open>new\<close> is a valid phone number, \<open>edit_phone(old, new)\<close> returns normally,
  keeps the name, and leaves the phones that differ from \<open>old\<close>, in their order and
  with their multiplicities, followed by a Phone with value \<open>new\<close>; no phone equal to
  \<open>old\<close> remains among the kept ones. If no phone equals \<open>old\<close>, nothing is removed
  and \<open>new\<close> is appended.
\<close>

theorem edit_phone_valid_new:
  assumes "length new = 10" and "list_all uni_decimal new"
  shows "fst (edit_phone old new r) = Inr ()
    \<and> name (snd (edit_phone old new r)) = name r
    \<and> phones (snd (edit_phone old new r)) = [p \<leftarrow> phones r. phone_value p \<noteq> old] @ [Phone new]
    \<and> subseq [p \<leftarrow> phones r. phone_value p \<noteq> old] (phones r)
    \<and> (\<forall>p. count_list [p \<leftarrow> phones r. phone_value p \<noteq> old] p
             = (if phone_value p = old then 0 else count_list (phones r) p))
    \<and> ((\<forall>p \<in> set (phones r). phone_value p \<noteq> old) \<longrightarrow>
         phones (snd (edit_phone old new r)) = phones r @ [Phone new])"
proof -
  have "Phone_init new = Inr (Phone new)"
    using assms by (rule Phone_init_valid)
  then have "edit_phone old new r
      = (Inr (), r\<lparr>phones := [p \<leftarrow> phones r. phone_value p \<noteq> old] @ [Phone new]\<rparr>)"
    by (simp add: edit_phone_def remove_phone_def add_phone_def)
  then show ?thesis
    by (simp add: count_list_filter_if)
qed

theorem edit_phone_valid_new_witness:
  "phones (snd (edit_phone (str ''1234567890'') [49, 49, 49, 50, 50, 50, 51, 51, 51, 51]
       \<lparr>name = Name (str ''John''),
        phones = [Phone (str ''1234567890''), Phone [53, 53, 53, 53, 53, 53, 53, 53, 53, 53],
                  Phone (str ''1234567890'')]\<rparr>))
     = [Phone [53, 53, 53, 53, 53, 53, 53, 53, 53, 53], Phone [49, 49, 49, 50, 50, 50, 51, 51, 51, 51]]
   \<and> phones (snd (edit_phone (str ''bad'') [49, 49, 49, 50, 50, 50, 51, 51, 51, 51]
       \<lparr>name = Name (str ''John''), phones = [Phone (str ''1234567890'')]\<rparr>))
     = [Phone (str ''1234567890''), Phone [49, 49, 49, 50, 50, 50, 51, 51, 51, 51]]"
proof -
  have len: "length [49, 49, 49, 50, 50, 50, 51, 51, 51, 51 :: nat] = 10"
    by simp
  have dec: "list_all uni_decimal [49, 49, 49, 50, 50, 50, 51, 51, 51, 51]"
    by (simp add: uni_decimal_def decimal_zeros_def)
  show ?thesis
    using edit_phone_valid_new [OF len dec, of "str ''1234567890''"
        "\<lparr>name = Name (str ''John''),
          phones = [Phone (str ''1234567890''), Phone [53, 53, 53, 53, 53, 53, 53, 53, 53, 53],
                    Phone (str ''1234567890'')]\<rparr>"]
      edit_phone_valid_new [OF len dec, of "str ''bad''"
        "\<lparr>name = Name (str ''John''), phones = [Phone (str ''1234567890'')]\<rparr>"]
    by (simp add: str_1234567890 str_bad)
qed

section \<open>Removing and finding a phone\<close>

text \<open>
  C4. \<open>remove_phone(number)\<close> never raises, keeps the name, and leaves no phone whose
  value equals \<open>number\<close>; the other phones stay, in their order and with their
  multiplicities. If no phone matches, the Record is unchanged. Removing twice leaves
  what removing once leaves.
\<close>

theorem remove_phone_removes_all:
  "fst (remove_phone n r) = Inr ()
   \<and> name (snd (remove_phone n r)) = name r
   \<and> (\<forall>p \<in> set (phones (snd (remove_phone n r))). phone_value p \<noteq> n)
   \<and> subseq (phones (snd (remove_phone n r))) (phones r)
   \<and> (\<forall>p. phone_value p \<noteq> n \<longrightarrow>
         count_list (phones (snd (remove_phone n r))) p = count_list (phones r) p)
   \<and> ((\<forall>p \<in> set (phones r). phone_value p \<noteq> n) \<longrightarrow> remove_phone n r = (Inr (), r))
   \<and> remove_phone n (snd (remove_phone n r)) = remove_phone n r"
  by (simp add: remove_phone_def count_list_filter_if)

theorem remove_phone_removes_all_witness:
  "remove_phone (str ''bad'')
       \<lparr>name = Name (str ''John''), phones = [Phone (str ''1234567890'')]\<rparr>
     = (Inr (), \<lparr>name = Name (str ''John''), phones = [Phone (str ''1234567890'')]\<rparr>)
   \<and> count_list (phones (snd (remove_phone (str ''bad'')
        \<lparr>name = Name (str ''John''), phones = [Phone (str ''1234567890'')]\<rparr>)))
        (Phone (str ''1234567890'')) = 1"
  using remove_phone_removes_all [of "str ''bad''"
      "\<lparr>name = Name (str ''John''), phones = [Phone (str ''1234567890'')]\<rparr>"]
  by (simp add: str_1234567890 str_bad)

text \<open>
  C5 (amended). Whenever \<open>add_phone(x)\<close> returns normally, that is whenever \<open>x\<close>
  passes Phone validation, a following \<open>find_phone(x)\<close> returns a Phone whose value
  is \<open>x\<close>. In general \<open>find_phone(number)\<close> returns the first Phone, in sequence
  order, whose value equals \<open>number\<close>, and \<open>None\<close> exactly when no phone matches; it
  leaves the Record as it is.
\<close>

theorem add_phone_find_phone:
  "(fst (add_phone x r) = Inr () \<longrightarrow>
      (\<exists>p. fst (find_phone x (snd (add_phone x r))) = Inr (Some p) \<and> phone_value p = x))
   \<and> (\<forall>p. fst (find_phone n r) = Inr (Some p) \<longleftrightarrow>
         (\<exists>i < length (phones r). phones r ! i = p \<and> phone_value p = n
            \<and> (\<forall>j < i. phone_value (phones r ! j) \<noteq> n)))
   \<and> (fst (find_phone n r) = Inr None \<longleftrightarrow> (\<forall>p \<in> set (phones r). phone_value p \<noteq> n))
   \<and> snd (find_phone n r) = r"
proof -
  have "\<exists>p. fst (find_phone x (snd (add_phone x r))) = Inr (Some p) \<and> phone_value p = x"
    if "fst (add_phone x r) = Inr ()"
  proof -
    from that have ok: "Phone_init x = Inr (Phone x)"
      by (auto simp: add_phone_def Phone_init_def split: if_splits)
    then show ?thesis
      using find_phone_loop_appended [of x "phones r"]
      by (simp add: add_phone_def find_phone_def)
  qed
  moreover have "fst (find_phone n r) = Inr (Some p) \<longleftrightarrow>
         (\<exists>i < length (phones r). phones r ! i = p \<and> phone_value p = n
            \<and> (\<forall>j < i. phone_value (phones r ! j) \<noteq> n))" for p
    by (auto simp: find_phone_def find_phone_loop_find find_Some_iff)
  moreover have "fst (find_phone n r) = Inr None \<longleftrightarrow> (\<forall>p \<in> set (phones r). phone_value p \<noteq> n)"
    by (auto simp: find_phone_def find_phone_loop_find find_None_iff)
  moreover have "snd (find_phone n r) = r"
    by (simp add: find_phone_def)
  ultimately show ?thesis
    by blast
qed

theorem add_phone_find_phone_witness:
  "fst (add_phone (str ''1234567890'')
       \<lparr>name = Name (str ''John''), phones = [Phone [53, 53, 53, 53, 53, 53, 53, 53, 53, 53]]\<rparr>)
     = Inr ()
   \<and> fst (find_phone (str ''1234567890'')
       (snd (add_phone (str ''1234567890'')
          \<lparr>name = Name (str ''John''), phones = [Phone [53, 53, 53, 53, 53, 53, 53, 53, 53, 53]]\<rparr>)))
     = Inr (Some (Phone (str ''1234567890'')))"
proof -
  let ?r = "\<lparr>name = Name (str ''John''), phones = [Phone [53, 53, 53, 53, 53, 53, 53, 53, 53, 53]]\<rparr>"
  have added: "add_phone (str ''1234567890'') ?r
      = (Inr (), ?r\<lparr>phones := phones ?r @ [Phone (str ''1234567890'')]\<rparr>)"
    by (simp add: add_phone_def Phone_init_1234567890)
  have found: "fst (find_phone (str ''1234567890'')
      (?r\<lparr>phones := phones ?r @ [Phone (str ''1234567890'')]\<rparr>))
      = Inr (Some (Phone (str ''1234567890'')))"
    by (simp add: find_phone_def str_1234567890)
  show ?thesis
    using added found add_phone_find_phone [of "str ''1234567890''" ?r]
    by simp
qed

text \<open>
  Without the condition that \<open>add_phone(x)\<close> returns, the round trip fails at
  \<open>x = "bad"\<close> on a Record without phones: \<open>add_phone("bad")\<close> raises \<open>ValueError\<close>,
  and \<open>find_phone("bad")\<close> on the Record it leaves returns \<open>None\<close>.
\<close>

theorem add_phone_find_phone_invalid:
  "fst (add_phone (str ''bad'') \<lparr>name = Name (str ''John''), phones = []\<rparr>)
     = Inl (ValueError ''Phone number must be 10 digits'')
   \<and> fst (find_phone (str ''bad'')
        (snd (add_phone (str ''bad'') \<lparr>name = Name (str ''John''), phones = []\<rparr>)))
     = Inr None"
  by (simp add: add_phone_def find_phone_def Phone_init_bad)

section \<open>Name validation\<close>

text \<open>
  C6. Constructing a Name with a non-empty string succeeds and the value of the Name
  is that string; constructing it with the empty string raises \<open>ValueError\<close>. The
  construction raises if and only if the string is empty.
\<close>

theorem Name_init_nonempty:
  "(s \<noteq> [] \<longrightarrow> Name_init s = Inr (Name s) \<and> name_value (Name s) = s)
   \<and> (s = [] \<longrightarrow> Name_init s = Inl (ValueError ''Name cannot be empty''))
   \<and> ((\<exists>e. Name_init s = Inl e) \<longleftrightarrow> s = [])"
  by (simp add: Name_init_def truthy_def)

theorem Name_init_nonempty_witness:
  "Name_init (str ''John'') = Inr (Name (str ''John''))
   \<and> Name_init (str []) = Inl (ValueError ''Name cannot be empty'')"
  using Name_init_nonempty [of "str ''John''"] Name_init_nonempty [of "str []"]
  by (simp add: str_def)

section \<open>The address book's operations\<close>

text \<open>
  C7. \<open>add_record(record)\<close> never raises and stores \<open>record\<close> under the value of its
  name, whatever the book held under that name before (an existing entry is replaced,
  not merged); every other entry is left as it was.
\<close>

theorem add_record_overwrites:
  "fst (add_record r b) = Inr ()
   \<and> data (snd (add_record r b)) (name_value (name r)) = Some r
   \<and> (\<forall>k. k \<noteq> name_value (name r) \<longrightarrow> data (snd (add_record r b)) k = data b k)
   \<and> dom (data (snd (add_record r b))) = insert (name_value (name r)) (dom (data b))"
  by (simp add: add_record_def)

theorem add_record_overwrites_witness:
  "data (snd (add_record \<lparr>name = Name (str ''John''), phones = []\<rparr>
       \<lparr>data = [str ''John'' \<mapsto> \<lparr>name = Name (str ''John''), phones = [Phone (str ''1234567890'')]\<rparr>,
                str ''Jane'' \<mapsto> \<lparr>name = Name (str ''Jane''), phones = []\<rparr>]\<rparr>))
      (str ''John'') = Some \<lparr>name = Name (str ''John''), phones = []\<rparr>
   \<and> data (snd (add_record \<lparr>name = Name (str ''John''), phones = []\<rparr>
       \<lparr>data = [str ''John'' \<mapsto> \<lparr>name = Name (str ''John''), phones = [Phone (str ''1234567890'')]\<rparr>,
                str ''Jane'' \<mapsto> \<lparr>name = Name (str ''Jane''), phones = []\<rparr>]\<rparr>))
      (str ''Jane'') = Some \<lparr>name = Name (str ''Jane''), phones = []\<rparr>"
  using add_record_overwrites [of "\<lparr>name = Name (str ''John''), phones = []\<rparr>"
      "\<lparr>data = [str ''John'' \<mapsto> \<lparr>name = Name (str ''John''), phones = [Phone (str ''1234567890'')]\<rparr>,
                str ''Jane'' \<mapsto> \<lparr>name = Name (str ''Jane''), phones = []\<rparr>]\<rparr>"]
  by (simp add: str_def)

text \<open>
  C8. After \<open>add_record(r)\<close>, \<open>find(r.name.value)\<close> returns \<open>r\<close>. \<open>delete(name)\<close>
  never raises, and after it \<open>find(name)\<close> returns \<open>None\<close>; so it does for the name
  of a record just added. When \<open>name\<close> is absent \<open>delete(name)\<close> leaves the book
  unchanged, and it never touches another entry. \<open>find\<close> leaves the book as it is.
\<close>

theorem add_record_find_delete:
  "find (name_value (name r)) (snd (add_record r b)) = (Inr (Some r), snd (add_record r b))
   \<and> fst (delete n b) = Inr ()
   \<and> find n (snd (delete n b)) = (Inr None, snd (delete n b))
   \<and> fst (find (name_value (name r))
        (snd (delete (name_value (name r)) (snd (add_record r b))))) = Inr None
   \<and> (n \<notin> dom (data b) \<longrightarrow> delete n b = (Inr (), b))
   \<and> (\<forall>k. k \<noteq> n \<longrightarrow> data (snd (delete n b)) k = data b k)"
  by (auto simp: find_def add_record_def delete_def)

theorem add_record_find_delete_witness:
  "fst (find (str ''John'')
       (snd (add_record \<lparr>name = Name (str ''John''), phones = []\<rparr> \<lparr>data = Map.empty\<rparr>)))
     = Inr (Some \<lparr>name = Name (str ''John''), phones = []\<rparr>)
   \<and> fst (find (str ''John'')
       (snd (delete (str ''John'')
          (snd (add_record \<lparr>name = Name (str ''John''), phones = []\<rparr> \<lparr>data = Map.empty\<rparr>)))))
     = Inr None
   \<and> delete (str ''Jane'') \<lparr>data = Map.empty\<rparr> = (Inr (), \<lparr>data = Map.empty\<rparr>)"
  using add_record_find_delete [of "\<lparr>name = Name (str ''John''), phones = []\<rparr>"
      "\<lparr>data = Map.empty\<rparr>" "str ''Jane''"]
  by simp

section \<open>Failure of \<open>add_phone\<close> and the invariant of the phones\<close>

text \<open>
  C9. If constructing a Phone from \<open>x\<close> fails validation, \<open>add_phone(x)\<close> raises that
  error and leaves the Record, its name and its phones, exactly as it was.
\<close>

theorem add_phone_atomic:
  "Phone_init x = Inl e \<Longrightarrow> add_phone x r = (Inl e, r)"
  by (simp add: add_phone_def)

theorem add_phone_atomic_witness:
  "add_phone (str ''bad'') \<lparr>name = Name (str ''John''), phones = [Phone (str ''1234567890'')]\<rparr>
     = (Inl (ValueError ''Phone number must be 10 digits''),
        \<lparr>name = Name (str ''John''), phones = [Phone (str ''1234567890'')]\<rparr>)"
  using add_phone_atomic [OF Phone_init_bad] by simp

text \<open>
  C10. In every Record reachable through construction, \<open>add_phone\<close>, \<open>remove_phone\<close>,
  \<open>edit_phone\<close> and \<open>find_phone\<close>, whether the calls returned or raised, every stored
  Phone has a value that passes Phone validation: exactly 10 digit characters. On such
  a Record \<open>remove_phone\<close> and \<open>find_phone\<close> return normally for every string.
\<close>

theorem reachable_phones_validated:
  assumes "reachable r"
  shows "(\<forall>p \<in> set (phones r).
            Phone_init (phone_value p) = Inr p
            \<and> length (phone_value p) = 10 \<and> list_all uni_decimal (phone_value p))
    \<and> fst (remove_phone x r) = Inr ()
    \<and> (\<exists>found. fst (find_phone x r) = Inr found)"
proof -
  have "list_all (\<lambda>p. Phone_init (phone_value p) = Inr p) (phones r)"
    using assms by (rule reachable_valid)
  then have "\<forall>p \<in> set (phones r).
            Phone_init (phone_value p) = Inr p
            \<and> length (phone_value p) = 10 \<and> list_all uni_decimal (phone_value p)"
    by (auto simp: list_all_iff Phone_init_def fullmatch_digits split: if_splits)
  then show ?thesis
    by (simp add: remove_phone_def find_phone_def)
qed

theorem reachable_phones_validated_witness:
  "reachable (snd (add_phone (str ''1234567890'') \<lparr>name = Name (str ''John''), phones = []\<rparr>))
   \<and> phones (snd (add_phone (str ''1234567890'') \<lparr>name = Name (str ''John''), phones = []\<rparr>))
       = [Phone (str ''1234567890'')]
   \<and> Phone_init (phone_value (Phone (str ''1234567890''))) = Inr (Phone (str ''1234567890''))
   \<and> fst (remove_phone (str ''bad'')
        (snd (add_phone (str ''1234567890'') \<lparr>name = Name (str ''John''), phones = []\<rparr>))) = Inr ()"
proof -
  have "Record_init (str ''John'') = Inr \<lparr>name = Name (str ''John''), phones = []\<rparr>"
    by (simp add: Record_init_def Name_init_def truthy_def str_def)
  then have "reachable \<lparr>name = Name (str ''John''), phones = []\<rparr>"
    by (rule reachable.init)
  then have r: "reachable (snd (add_phone (str ''1234567890'')
      \<lparr>name = Name (str ''John''), phones = []\<rparr>))"
    by (rule reachable.add)
  have ps: "phones (snd (add_phone (str ''1234567890'') \<lparr>name = Name (str ''John''), phones = []\<rparr>))
       = [Phone (str ''1234567890'')]"
    by (simp add: add_phone_def Phone_init_1234567890)
  show ?thesis
    using r ps reachable_phones_validated [OF r, of "str ''bad''"]
    by simp
qed

end
